theory Spec2Isabelle
  imports Main "HOL-Library.Char_ord" "HOL-Library.List_Lexorder" "HOL-Library.Multiset"
begin

section \<open>Numbers in the store and in the scripts\<close>

text \<open>
  The balance column is declared \<^verbatim>\<open>Integer\<close> on an SQLite store. SQLite keeps an
  integer in 64 bits, signed; a Python integer outside this range cannot be bound to a
  statement (\<^verbatim>\<open>OverflowError\<close>), and integer arithmetic inside a statement that leaves
  the range is done again in double precision, its result stored as a floating-point
  value. Python integers themselves are unbounded.
\<close>

definition in_int64 :: "int \<Rightarrow> bool" where
  "in_int64 i = (- (2 ^ 63) \<le> i \<and> i < 2 ^ 63)"

text \<open>
  A value of the column, in the store or in a Python object: an integer, a finite
  double, or an infinite one. Every double that arises is the sum or difference of
  integers rounded to a double, hence an integer itself: \<open>RealValue d\<close> is the double
  whose exact value is \<open>d\<close>.
\<close>

datatype number = IntegerValue int | RealValue int | PlusInfinity | MinusInfinity

text \<open>
  The double nearest to an integer, ties to the even significand: \<open>ulp m\<close> is the
  distance between the doubles around \<open>m\<close>, whose significand has 53 bits.
\<close>

function ulp :: "int \<Rightarrow> int" where
  "ulp m = (if m < 2 ^ 53 then 1 else 2 * ulp (m div 2))"
  by pat_completeness auto
termination
  by (relation "measure nat") auto

declare ulp.simps [simp del]

definition round53 :: "int \<Rightarrow> int" where
  "round53 m =
     (let u = ulp m; q = m div u; r = m mod u
      in if u < 2 * r \<or> (2 * r = u \<and> odd q) then (q + 1) * u else q * u)"

definition nearest_double :: "int \<Rightarrow> int" where
  "nearest_double x = sgn x * round53 \<bar>x\<bar>"

text \<open>The result of a double-precision operation whose exact value is \<open>x\<close>.\<close>

definition as_real :: "int \<Rightarrow> number" where
  "as_real x =
     (let d = nearest_double x
      in if 2 ^ 1024 \<le> d then PlusInfinity
         else if d \<le> - (2 ^ 1024) then MinusInfinity
         else RealValue d)"

text \<open>
  What the column keeps of a value written to it (its affinity is INTEGER): a double
  that is an integer strictly inside the 64-bit range is kept as that integer.
\<close>

fun stored :: "number \<Rightarrow> number" where
  "stored (RealValue d) =
     (if - (2 ^ 63) < d \<and> d < 2 ^ 63 - 1 then IntegerValue d else RealValue d)"
| "stored v = v"

text \<open>
  \<^verbatim>\<open>balance - :p\<close> and \<^verbatim>\<open>balance + :p\<close> inside a statement, \<open>p\<close> a bound 64-bit
  integer: integer arithmetic when the result is in range, double precision otherwise
  and whenever the column holds a double.
\<close>

fun sql_arith :: "(int \<Rightarrow> int \<Rightarrow> int) \<Rightarrow> number \<Rightarrow> int \<Rightarrow> number" where
  "sql_arith f (IntegerValue b) p =
     (if in_int64 (f b p) then IntegerValue (f b p)
      else as_real (f (nearest_double b) (nearest_double p)))"
| "sql_arith f (RealValue r) p = as_real (f r (nearest_double p))"
| "sql_arith f PlusInfinity p = PlusInfinity"
| "sql_arith f MinusInfinity p = MinusInfinity"

text \<open>
  Python's \<^verbatim>\<open>balance < amount\<close>, \<^verbatim>\<open>balance - amount\<close> and \<^verbatim>\<open>balance + amount\<close> for
  an integer \<open>amount\<close>. The comparison is exact. The arithmetic is exact on an
  integer balance; on a float balance the amount is converted to a float first, which
  raises \<^verbatim>\<open>OverflowError\<close> when it is too large.
\<close>

fun py_less :: "number \<Rightarrow> int \<Rightarrow> bool" where
  "py_less (IntegerValue b) a = (b < a)"
| "py_less (RealValue r) a = (r < a)"
| "py_less PlusInfinity a = False"
| "py_less MinusInfinity a = True"

section \<open>The accounts table\<close>

text \<open>
  Both transaction scripts declare the same table: \<^verbatim>\<open>accounts(id, account_number, balance)\<close>
  with an integer primary key, a unique \<^verbatim>\<open>account_number\<close> and an integer balance.
  A row is a record, the table is the list of its rows in insertion order.
\<close>

record account =
  account_id :: nat
  account_number :: string
  balance :: number

type_synonym table = "account list"

text \<open>
  What the store keeps true of every table: primary keys and account numbers are
  unique (\<open>unique_keys\<close>), and an integer it holds is a 64-bit one.
\<close>

fun storable :: "number \<Rightarrow> bool" where
  "storable (IntegerValue i) = in_int64 i"
| "storable v = True"

definition unique_keys :: "table \<Rightarrow> bool" where
  "unique_keys t = (distinct (map account_id t) \<and> distinct (map account_number t))"

definition wf_table :: "table \<Rightarrow> bool" where
  "wf_table t = (unique_keys t \<and> list_all (\<lambda>r. storable (balance r)) t)"

definition lookup :: "table \<Rightarrow> string \<Rightarrow> account option" where
  "lookup t num = find (\<lambda>r. account_number r = num) t"

definition balance_of :: "table \<Rightarrow> string \<Rightarrow> number option" where
  "balance_of t num = map_option balance (lookup t num)"

text \<open>The sum of the exact values of two balances, when both accounts exist and are finite.\<close>

fun exact_value :: "number \<Rightarrow> int option" where
  "exact_value (IntegerValue i) = Some i"
| "exact_value (RealValue d) = Some d"
| "exact_value v = None"

definition pair_sum :: "table \<Rightarrow> string \<Rightarrow> string \<Rightarrow> int option" where
  "pair_sum t x y =
     (case Option.bind (balance_of t x) exact_value of
        None \<Rightarrow> None
      | Some p \<Rightarrow>
         (case Option.bind (balance_of t y) exact_value of
            None \<Rightarrow> None
          | Some q \<Rightarrow> Some (p + q)))"

subsection \<open>Exceptions and outcomes\<close>

text \<open>
  The exceptions the scripts raise or receive, as values:
  \<^item> \<open>AccountNotFound n\<close>: \<^verbatim>\<open>ValueError("Account n not found")\<close> and its ORM variants;
  \<^item> \<open>InsufficientFunds n\<close>: \<^verbatim>\<open>ValueError("Insufficient Funds in Account n")\<close>;
  \<^item> \<open>SimulatedFailure\<close>: \<^verbatim>\<open>Exception("Simulated failure during fund transfer.")\<close>;
  \<^item> \<open>IntegrityError n\<close>: the store refusing a second row with account number \<open>n\<close>;
  \<^item> \<open>OverflowError\<close>: a Python integer too large for the store or for a float;
  \<^item> \<open>OperationalError\<close>: the store cannot be opened.
\<close>

datatype error =
    AccountNotFound string
  | InsufficientFunds string
  | SimulatedFailure
  | IntegrityError string
  | OverflowError
  | OperationalError

datatype outcome = Committed | RolledBack error

fun py_arith :: "(int \<Rightarrow> int \<Rightarrow> int) \<Rightarrow> number \<Rightarrow> int \<Rightarrow> error + number" where
  "py_arith f (IntegerValue b) a = Inr (IntegerValue (f b a))"
| "py_arith f (RealValue r) a =
     (case as_real a of
        RealValue x \<Rightarrow> Inr (as_real (f r x))
      | v \<Rightarrow> Inl OverflowError)"
| "py_arith f v a =
     (case as_real a of
        RealValue x \<Rightarrow> Inr v
      | w \<Rightarrow> Inl OverflowError)"

subsection \<open>Statements\<close>

text \<open>The key an insert without an explicit id gets: one more than the largest in use.\<close>

definition next_id :: "table \<Rightarrow> nat" where
  "next_id t = Suc (fold max (map account_id t) 0)"

text \<open>\<^verbatim>\<open>INSERT INTO accounts (account_number, balance) VALUES (num, bal)\<close>\<close>

definition insert_row :: "string \<Rightarrow> int \<Rightarrow> table \<Rightarrow> error + table" where
  "insert_row num bal t =
     (if in_int64 bal then
        if num \<in> set (map account_number t) then Inl (IntegrityError num)
        else Inr (t @ [\<lparr>account_id = next_id t, account_number = num,
                        balance = IntegerValue bal\<rparr>])
      else Inl OverflowError)"

fun insert_rows :: "(string \<times> int) list \<Rightarrow> table \<Rightarrow> error + table" where
  "insert_rows [] t = Inr t"
| "insert_rows ((num, bal) # rows) t =
     (case insert_row num bal t of
        Inl e \<Rightarrow> Inl e
      | Inr t' \<Rightarrow> insert_rows rows t')"

text \<open>
  \<^verbatim>\<open>UPDATE accounts SET balance = g(balance) WHERE account_number = num\<close> on the
  table: the number of rows matched (the statement's rowcount) and the table afterwards.
\<close>

definition update_balance :: "string \<Rightarrow> (number \<Rightarrow> number) \<Rightarrow> table \<Rightarrow> nat \<times> table" where
  "update_balance num g t =
     (length (filter (\<lambda>r. account_number r = num) t),
      map (\<lambda>r. if account_number r = num then r\<lparr>balance := g (balance r)\<rparr> else r) t)"

text \<open>
  \<^verbatim>\<open>connection.execute(update(accounts_table).where(account_number == num)
  .values(balance=accounts_table.c.balance - amount))\<close>, and the same with \<^verbatim>\<open>+\<close>: the
  amount is a bound parameter, so an amount outside 64 bits raises before the
  statement runs; the new balance is computed by the store and written to the column.
\<close>

definition execute_update ::
  "string \<Rightarrow> (int \<Rightarrow> int \<Rightarrow> int) \<Rightarrow> int \<Rightarrow> table \<Rightarrow> error + nat \<times> table" where
  "execute_update num f amount t =
     (if in_int64 amount
      then Inr (update_balance num (\<lambda>v. stored (sql_arith f v amount)) t)
      else Inl OverflowError)"

section \<open>The Core script\<close>

definition initial_data :: "(string \<times> int) list" where
  "initial_data = [(''ACC001'', 1000), (''ACC002'', 2000), (''ACC003'', 3000)]"

text \<open>
  \<^verbatim>\<open>setup_accounts_table\<close> drops the table when there is one, creates it again and
  inserts the initial rows: what the table held before does not matter.
\<close>

definition setup_accounts_table :: "table \<Rightarrow> error + table" where
  "setup_accounts_table engine = insert_rows initial_data []"

text \<open>
  \<^verbatim>\<open>get_account_balances\<close> prints one line per row of
  \<^verbatim>\<open>select(accounts_table).order_by(accounts_table.c.account_number)\<close>.
  The model returns the printed pairs, and the table as the call leaves it.
\<close>

definition get_account_balances :: "table \<Rightarrow> (string \<times> number) list \<times> table" where
  "get_account_balances engine =
     (map (\<lambda>r. (account_number r, balance r)) (sort_key account_number engine), engine)"

text \<open>
  The body of the \<^verbatim>\<open>try\<close> block of \<^verbatim>\<open>transfer_funds\<close>, run on the connection's
  view of the table: \<open>Inl\<close> is the exception that leaves the block, \<open>Inr\<close> the table
  that \<^verbatim>\<open>trans.commit()\<close> makes durable.
\<close>

definition transfer_statements ::
  "string \<Rightarrow> string \<Rightarrow> int \<Rightarrow> bool \<Rightarrow> table \<Rightarrow> error + table" where
  "transfer_statements from_acc_number to_acc_number amount should_fail t =
     (case execute_update from_acc_number (-) amount t of
        Inl e \<Rightarrow> Inl e
      | Inr (deducted, t1) \<Rightarrow>
          if deducted = 0 then Inl (AccountNotFound from_acc_number)
          else if should_fail then
            (case insert_row ''ACC999'' 1000 t1 of
               Inl e \<Rightarrow> Inl e
             | Inr t2 \<Rightarrow> Inl SimulatedFailure)
          else
            (case execute_update to_acc_number (+) amount t1 of
               Inl e \<Rightarrow> Inl e
             | Inr (added, t2) \<Rightarrow>
                 if added = 0 then Inl (AccountNotFound to_acc_number)
                 else Inr t2))"

text \<open>
  \<^verbatim>\<open>transfer_funds\<close>: the \<^verbatim>\<open>except\<close> clause catches every exception of the body and
  rolls the transaction back, so the table is the one before the call; the
  \<^verbatim>\<open>finally\<close> clause prints the balances. The result is the outcome, the printed
  balances and the table afterwards.
\<close>

definition transfer_funds ::
  "table \<Rightarrow> string \<Rightarrow> string \<Rightarrow> int \<Rightarrow> bool \<Rightarrow> outcome \<times> (string \<times> number) list \<times> table" where
  "transfer_funds engine from_acc_number to_acc_number amount should_fail =
     (case transfer_statements from_acc_number to_acc_number amount should_fail engine of
        Inl e \<Rightarrow> (RolledBack e, get_account_balances engine)
      | Inr engine' \<Rightarrow> (Committed, get_account_balances engine'))"

text \<open>
  The body of the \<^verbatim>\<open>try\<close> block of the script: set the table up, print the
  balances, and run the three example transfers. The result is the first printed
  balances, the outcome and printed balances of each transfer, and the final table.
\<close>

definition core_script_body ::
  "table \<Rightarrow> error + (string \<times> number) list \<times> (outcome \<times> (string \<times> number) list) list \<times> table" where
  "core_script_body engine0 =
     (case setup_accounts_table engine0 of
        Inl e \<Rightarrow> Inl e
      | Inr engine1 \<Rightarrow>
         (case get_account_balances engine1 of
            (printed0, engine2) \<Rightarrow>
         (case transfer_funds engine2 ''ACC001'' ''ACC002'' 100 False of
            (outcome1, printed1, engine3) \<Rightarrow>
         (case transfer_funds engine3 ''ACC001'' ''ACC003'' 50 True of
            (outcome2, printed2, engine4) \<Rightarrow>
         (case transfer_funds engine4 ''NON_EXISTENT_ACC'' ''ACC002'' 100 False of
            (outcome3, printed3, engine5) \<Rightarrow>
              Inr (printed0,
                   [(outcome1, printed1), (outcome2, printed2), (outcome3, printed3)],
                   engine5))))))"

section \<open>The ORM script\<close>

text \<open>
  A session holds the objects it has loaded in its identity map, keyed by primary key,
  and the objects \<^verbatim>\<open>session.add\<close> has registered, which have no key before the flush.
  Two queries that find the same row return the same object: a reference to an object
  is its key in the identity map, and assignments to an attribute go through it.
  The sessions are made with \<^verbatim>\<open>autoflush=False\<close>: nothing is written before
  \<^verbatim>\<open>session.commit()\<close>.
\<close>

record session =
  identity_map :: "nat \<rightharpoonup> account"
  pending :: "(string \<times> int) list"

definition new_session :: session where
  "new_session = \<lparr>identity_map = Map.empty, pending = []\<rparr>"

text \<open>
  \<^verbatim>\<open>session.query(Account).filter_by(account_number=num).first()\<close>: the first row
  with that number, as the object of the identity map (loaded from the row when the
  session does not hold it yet), or \<^verbatim>\<open>None\<close>.
\<close>

definition query_first :: "string \<Rightarrow> table \<Rightarrow> session \<Rightarrow> account option \<times> session" where
  "query_first num t s =
     (case find (\<lambda>r. account_number r = num) t of
        None \<Rightarrow> (None, s)
      | Some r \<Rightarrow>
         (case identity_map s (account_id r) of
            Some obj \<Rightarrow> (Some obj, s)
          | None \<Rightarrow> (Some r, s\<lparr>identity_map := (identity_map s)(account_id r \<mapsto> r)\<rparr>)))"

text \<open>
  \<^verbatim>\<open>obj.balance -= amount\<close> and \<^verbatim>\<open>obj.balance += amount\<close> on the object with key
  \<open>k\<close>: Python arithmetic on the object's attribute.
\<close>

definition assign_balance ::
  "nat \<Rightarrow> (int \<Rightarrow> int \<Rightarrow> int) \<Rightarrow> int \<Rightarrow> session \<Rightarrow> error + session" where
  "assign_balance k f amount s =
     (case identity_map s k of
        None \<Rightarrow> Inr s
      | Some obj \<Rightarrow>
         (case py_arith f (balance obj) amount of
            Inl e \<Rightarrow> Inl e
          | Inr v \<Rightarrow> Inr (s\<lparr>identity_map := (identity_map s)(k \<mapsto> obj\<lparr>balance := v\<rparr>)\<rparr>)))"

definition session_add :: "string \<Rightarrow> int \<Rightarrow> session \<Rightarrow> session" where
  "session_add num bal s = s\<lparr>pending := pending s @ [(num, bal)]\<rparr>"

text \<open>
  \<^verbatim>\<open>session.commit()\<close> flushes: every loaded object whose balance differs from its
  row's is written back to the row with its primary key, then the registered objects
  are inserted. A Python integer outside 64 bits cannot be bound to the update, and the
  store refuses an insert that repeats an account number: either raises, and nothing
  is committed.
\<close>

definition dirty :: "session \<Rightarrow> account \<Rightarrow> bool" where
  "dirty s r =
     (case identity_map s (account_id r) of
        None \<Rightarrow> False
      | Some obj \<Rightarrow> balance obj \<noteq> balance r)"

definition flush_updates :: "session \<Rightarrow> table \<Rightarrow> error + table" where
  "flush_updates s t =
     (if list_ex (\<lambda>r. dirty s r \<and>
            (case identity_map s (account_id r) of
               None \<Rightarrow> False
             | Some obj \<Rightarrow> \<not> storable (balance obj))) t
      then Inl OverflowError
      else Inr (map (\<lambda>r. case identity_map s (account_id r) of
                           None \<Rightarrow> r
                         | Some obj \<Rightarrow>
                             if dirty s r then obj\<lparr>balance := stored (balance obj)\<rparr> else r) t))"

definition session_commit :: "session \<Rightarrow> table \<Rightarrow> error + table" where
  "session_commit s t =
     (case flush_updates s t of
        Inl e \<Rightarrow> Inl e
      | Inr t' \<Rightarrow> insert_rows (pending s) t')"

definition initial_data_orm :: "(string \<times> int) list" where
  "initial_data_orm = [(''ACC001'', 1000), (''ACC002'', 500), (''ACC003'', 200)]"

definition setup_accounts_orm_table :: "table \<Rightarrow> error + table" where
  "setup_accounts_orm_table engine =
     session_commit (new_session\<lparr>pending := initial_data_orm\<rparr>) []"

definition get_account_balances_orm :: "table \<Rightarrow> (string \<times> number) list \<times> table" where
  "get_account_balances_orm engine =
     (map (\<lambda>r. (account_number r, balance r)) (sort_key account_number engine), engine)"

text \<open>
  The body of the \<^verbatim>\<open>try\<close> block of \<^verbatim>\<open>transfer_funds_orm\<close>: \<open>Inl\<close> is the exception
  that leaves the block, \<open>Inr\<close> the table that \<^verbatim>\<open>session.commit()\<close> makes durable.
\<close>

definition transfer_session ::
  "string \<Rightarrow> string \<Rightarrow> int \<Rightarrow> bool \<Rightarrow> table \<Rightarrow> error + table" where
  "transfer_session from_account_number to_account_number amount should_fail t =
     (case query_first from_account_number t new_session of
        (None, s1) \<Rightarrow> Inl (AccountNotFound from_account_number)
      | (Some from_account, s1) \<Rightarrow>
          if py_less (balance from_account) amount
          then Inl (InsufficientFunds from_account_number)
          else
            (case query_first to_account_number t s1 of
               (None, s2) \<Rightarrow> Inl (AccountNotFound to_account_number)
             | (Some to_account, s2) \<Rightarrow>
                 (case assign_balance (account_id from_account) (-) amount s2 of
                    Inl e \<Rightarrow> Inl e
                  | Inr s3 \<Rightarrow>
                     (case assign_balance (account_id to_account) (+) amount s3 of
                        Inl e \<Rightarrow> Inl e
                      | Inr s4 \<Rightarrow>
                          session_commit
                            (if should_fail then session_add ''ACC001'' 999 s4 else s4) t))))"

text \<open>
  \<^verbatim>\<open>transfer_funds_orm\<close>: both \<^verbatim>\<open>except\<close> clauses roll back, so after an exception
  the table is the one before the call; \<^verbatim>\<open>finally\<close> prints the balances.
\<close>

definition transfer_funds_orm ::
  "table \<Rightarrow> string \<Rightarrow> string \<Rightarrow> int \<Rightarrow> bool \<Rightarrow> outcome \<times> (string \<times> number) list \<times> table" where
  "transfer_funds_orm engine from_account_number to_account_number amount should_fail =
     (case transfer_session from_account_number to_account_number amount should_fail engine of
        Inl e \<Rightarrow> (RolledBack e, get_account_balances_orm engine)
      | Inr engine' \<Rightarrow> (Committed, get_account_balances_orm engine'))"

definition orm_script_body ::
  "table \<Rightarrow> error + (string \<times> number) list \<times> (outcome \<times> (string \<times> number) list) list \<times> table" where
  "orm_script_body engine0 =
     (case setup_accounts_orm_table engine0 of
        Inl e \<Rightarrow> Inl e
      | Inr engine1 \<Rightarrow>
         (case get_account_balances_orm engine1 of
            (printed0, engine2) \<Rightarrow>
         (case transfer_funds_orm engine2 ''ACC001'' ''ACC002'' 200 False of
            (outcome1, printed1, engine3) \<Rightarrow>
         (case transfer_funds_orm engine3 ''ACC001'' ''ACC003'' 500 True of
            (outcome2, printed2, engine4) \<Rightarrow>
         (case transfer_funds_orm engine4 ''NONEXISTENT'' ''ACC001'' 100 False of
            (outcome3, printed3, engine5) \<Rightarrow>
              Inr (printed0,
                   [(outcome1, printed1), (outcome2, printed2), (outcome3, printed3)],
                   engine5))))))"

section \<open>The scripts as processes\<close>

text \<open>
  A script runs against a store that can be opened (\<open>Some\<close> of its accounts table) or
  not (\<open>None\<close>): then the first statement that connects raises \<open>OperationalError\<close>.
  A process ends with an exit status, or with an exception nobody caught: the
  interpreter prints the trace and the status is 1.
\<close>

datatype process_end = Exit nat | Uncaught error

fun exit_status :: "process_end \<Rightarrow> nat" where
  "exit_status (Exit n) = n"
| "exit_status (Uncaught e) = 1"

definition core_script_run ::
  "table option \<Rightarrow> error + (string \<times> number) list \<times> (outcome \<times> (string \<times> number) list) list \<times> table" where
  "core_script_run store =
     (case store of
        None \<Rightarrow> Inl OperationalError
      | Some engine \<Rightarrow> core_script_body engine)"

text \<open>
  The Core script's \<^verbatim>\<open>except Exception as e: print(...)\<close>: the exception is printed
  and the script ends as any script that reaches its last line does.
\<close>

definition main_core :: "table option \<Rightarrow> process_end" where
  "main_core store =
     (case core_script_run store of
        Inl e \<Rightarrow> Exit 0
      | Inr r \<Rightarrow> Exit 0)"

definition orm_script_run ::
  "table option \<Rightarrow> error + (string \<times> number) list \<times> (outcome \<times> (string \<times> number) list) list \<times> table" where
  "orm_script_run store =
     (case store of
        None \<Rightarrow> Inl OperationalError
      | Some engine \<Rightarrow> orm_script_body engine)"

text \<open>The ORM script has no handler around its body.\<close>

definition main_orm :: "table option \<Rightarrow> process_end" where
  "main_orm store =
     (case orm_script_run store of
        Inl e \<Rightarrow> Uncaught e
      | Inr r \<Rightarrow> Exit 0)"

section \<open>The tables the scripts start from\<close>

definition core_seed :: table where
  "core_seed =
     [\<lparr>account_id = 1, account_number = ''ACC001'', balance = IntegerValue 1000\<rparr>,
      \<lparr>account_id = 2, account_number = ''ACC002'', balance = IntegerValue 2000\<rparr>,
      \<lparr>account_id = 3, account_number = ''ACC003'', balance = IntegerValue 3000\<rparr>]"

definition orm_seed :: table where
  "orm_seed =
     [\<lparr>account_id = 1, account_number = ''ACC001'', balance = IntegerValue 1000\<rparr>,
      \<lparr>account_id = 2, account_number = ''ACC002'', balance = IntegerValue 500\<rparr>,
      \<lparr>account_id = 3, account_number = ''ACC003'', balance = IntegerValue 200\<rparr>]"

section \<open>Statements on a table\<close>

lemma stored_sql_arith_in_range:
  "in_int64 (f b p) \<Longrightarrow> stored (sql_arith f (IntegerValue b) p) = IntegerValue (f b p)"
  by simp

lemma rowcount_zero_iff: "fst (update_balance num g t) = 0 \<longleftrightarrow> lookup t num = None"
  by (auto simp: update_balance_def lookup_def find_None_iff filter_empty_conv)

lemma lookup_update_balance:
  "lookup (snd (update_balance num g t)) k =
     map_option (\<lambda>r. if k = num then r\<lparr>balance := g (balance r)\<rparr> else r) (lookup t k)"
  by (induction t) (auto simp: update_balance_def lookup_def)

lemma balance_of_update_balance:
  "balance_of (snd (update_balance num g t)) k =
     (if k = num then map_option g (balance_of t k) else balance_of t k)"
  by (cases "lookup t k") (auto simp: balance_of_def lookup_update_balance)

lemma numbers_update_balance:
  "map account_number (snd (update_balance num g t)) = map account_number t"
  by (simp add: update_balance_def comp_def if_distrib[of account_number])

lemma numbers_after_updates:
  "map account_number
     (snd (update_balance to g (snd (update_balance f h t)))) = map account_number t"
  by (simp only: numbers_update_balance)

lemma update_balance_twice:
  "snd (update_balance num g2 (snd (update_balance num g1 t))) =
     snd (update_balance num (\<lambda>v. g2 (g1 v)) t)"
  by (induction t) (auto simp: update_balance_def)

lemma update_balance_id:
  "(\<And>r. r \<in> set t \<Longrightarrow> account_number r = num \<Longrightarrow> g (balance r) = balance r) \<Longrightarrow>
     snd (update_balance num g t) = t"
  by (induction t) (auto simp: update_balance_def)

lemma in_int64_1000: "in_int64 1000" and in_int64_999: "in_int64 999"
  by (simp_all add: in_int64_def)

lemma insert_acc001_duplicate:
  assumes "map account_number t' = map account_number t"
    and "''ACC001'' \<in> set (map account_number t)"
  shows "insert_rows [(''ACC001'', 999)] t' = Inl (IntegrityError ''ACC001'')"
proof -
  have "''ACC001'' \<in> set (map account_number t')"
    using assms by simp
  then show ?thesis
    by (simp add: insert_row_def in_int64_999 del: set_map)
qed

lemma pair_sum_integers:
  "balance_of t f = Some (IntegerValue p) \<Longrightarrow> balance_of t to = Some (IntegerValue q) \<Longrightarrow>
     pair_sum t f to = Some (p + q)"
  by (simp add: pair_sum_def)

section \<open>The statements of a Core transfer\<close>

lemma transfer_statements_overflow:
  "\<not> in_int64 amount \<Longrightarrow> transfer_statements f to amount sf t = Inl OverflowError"
  by (simp add: transfer_statements_def execute_update_def)

lemma transfer_statements_plain:
  assumes "in_int64 amount"
  shows "transfer_statements f to amount False t =
     (if lookup t f = None then Inl (AccountNotFound f)
      else if lookup t to = None then Inl (AccountNotFound to)
      else Inr (snd (update_balance to (\<lambda>v. stored (sql_arith (+) v amount))
                  (snd (update_balance f (\<lambda>v. stored (sql_arith (-) v amount)) t)))))"
proof -
  obtain n1 t1 where u1: "update_balance f (\<lambda>v. stored (sql_arith (-) v amount)) t = (n1, t1)"
    by (cases "update_balance f (\<lambda>v. stored (sql_arith (-) v amount)) t")
  obtain n2 t2 where u2: "update_balance to (\<lambda>v. stored (sql_arith (+) v amount)) t1 = (n2, t2)"
    by (cases "update_balance to (\<lambda>v. stored (sql_arith (+) v amount)) t1")
  have z1: "n1 = 0 \<longleftrightarrow> lookup t f = None"
    using rowcount_zero_iff [of f "\<lambda>v. stored (sql_arith (-) v amount)" t] u1 by simp
  have "lookup t1 to = None \<longleftrightarrow> lookup t to = None"
    using lookup_update_balance [of f "\<lambda>v. stored (sql_arith (-) v amount)" t to] u1 by simp
  then have z2: "n2 = 0 \<longleftrightarrow> lookup t to = None"
    using rowcount_zero_iff [of to "\<lambda>v. stored (sql_arith (+) v amount)" t1] u2 by simp
  show ?thesis
    using z1 z2 assms by (simp add: transfer_statements_def execute_update_def u1 u2)
qed

lemma transfer_statements_fault:
  assumes "in_int64 amount"
  shows "transfer_statements f to amount True t =
     (if lookup t f = None then Inl (AccountNotFound f)
      else if ''ACC999'' \<in> set (map account_number t) then Inl (IntegrityError ''ACC999'')
      else Inl SimulatedFailure)"
proof -
  obtain n1 t1 where u1: "update_balance f (\<lambda>v. stored (sql_arith (-) v amount)) t = (n1, t1)"
    by (cases "update_balance f (\<lambda>v. stored (sql_arith (-) v amount)) t")
  have z1: "n1 = 0 \<longleftrightarrow> lookup t f = None"
    using rowcount_zero_iff [of f "\<lambda>v. stored (sql_arith (-) v amount)" t] u1 by simp
  have "map account_number t1 = map account_number t"
    using numbers_update_balance [of f "\<lambda>v. stored (sql_arith (-) v amount)" t] u1 by simp
  then have "set (map account_number t1) = set (map account_number t)" by simp
  then show ?thesis
    using z1 assms unfolding transfer_statements_def execute_update_def u1 insert_row_def
    by (simp add: in_int64_1000 del: set_map)
qed

lemma core_fault_rolls_back:
  "\<exists>e. transfer_funds t from_acc_number to_acc_number amount True =
          (RolledBack e, get_account_balances t)"
proof (cases "in_int64 amount")
  case True
  then show ?thesis
    by (simp add: transfer_funds_def transfer_statements_fault)
next
  case False
  then show ?thesis
    by (simp add: transfer_funds_def transfer_statements_overflow)
qed

section \<open>Rows of a well-formed table\<close>

lemma wf_row_by_number:
  assumes "wf_table t" "lookup t num = Some a" "r \<in> set t" "account_number r = num"
  shows "r = a"
proof -
  have "a \<in> set t" "account_number a = num"
    using assms(2) by (auto simp: lookup_def find_Some_iff)
  moreover have "inj_on account_number (set t)"
    using assms(1) by (simp add: wf_table_def unique_keys_def distinct_map)
  ultimately show ?thesis
    using assms(3,4) by (auto dest: inj_onD)
qed

lemma wf_row_by_id:
  assumes "wf_table t" "lookup t num = Some a" "r \<in> set t"
  shows "account_id r = account_id a \<longleftrightarrow> account_number r = num"
proof -
  have am: "a \<in> set t" "account_number a = num"
    using assms(2) by (auto simp: lookup_def find_Some_iff)
  have "inj_on account_number (set t)" "inj_on account_id (set t)"
    using assms(1) by (simp_all add: wf_table_def unique_keys_def distinct_map)
  then show ?thesis
    using am assms(3) by (auto dest: inj_onD)
qed

lemma wf_storable:
  assumes "wf_table t" "lookup t num = Some a" "balance a = IntegerValue x"
  shows "in_int64 x"
proof -
  have "a \<in> set t"
    using assms(2) by (auto simp: lookup_def find_Some_iff)
  then have "storable (balance a)"
    using assms(1) by (simp add: wf_table_def unique_keys_def list_all_iff)
  then show ?thesis
    using assms(3) by simp
qed

lemma update_balance_self:
  assumes wf: "wf_table t" and a: "lookup t num = Some a"
    and ba: "balance a = IntegerValue x" and r: "in_int64 (x - amount)"
  shows "snd (update_balance num (\<lambda>v. stored (sql_arith (+) v amount))
               (snd (update_balance num (\<lambda>v. stored (sql_arith (-) v amount)) t))) = t"
proof -
  have x: "in_int64 x"
    using wf a ba by (rule wf_storable)
  have "stored (sql_arith (+) (stored (sql_arith (-) (balance r) amount)) amount) = balance r"
    if "r \<in> set t" "account_number r = num" for r
  proof -
    have "r = a" using wf a that by (rule wf_row_by_number)
    then show ?thesis
      using ba r x by simp
  qed
  then show ?thesis
    unfolding update_balance_twice by (rule update_balance_id)
qed

section \<open>The session of an ORM transfer\<close>

lemma query_first_pending: "pending (snd (query_first num t s)) = pending s"
  by (simp add: query_first_def split: option.splits)

lemma transfer_session_early:
  assumes "lookup t f = None \<or> lookup t to = None"
  shows "transfer_session f to amount sf t =
     Inl (case lookup t f of
            None \<Rightarrow> AccountNotFound f
          | Some a \<Rightarrow>
              if py_less (balance a) amount then InsufficientFunds f else AccountNotFound to)"
  using assms
  by (auto simp: transfer_session_def query_first_def new_session_def lookup_def
           split: option.splits)

lemma transfer_session_insufficient:
  assumes "lookup t f = Some a" "py_less (balance a) amount"
  shows "transfer_session f to amount sf t = Inl (InsufficientFunds f)"
  using assms
  by (auto simp: transfer_session_def query_first_def new_session_def lookup_def
           split: option.splits)

lemma transfer_session_two:
  assumes wf: "wf_table t"
    and a: "lookup t f = Some a" and b: "lookup t to = Some b"
    and ne: "f \<noteq> to"
    and ba: "balance a = IntegerValue x" and bb: "balance b = IntegerValue y"
    and enough: "\<not> x < amount"
  shows "transfer_session f to amount sf t =
     session_commit
       \<lparr>identity_map = [account_id a \<mapsto> a\<lparr>balance := IntegerValue (x - amount)\<rparr>,
                        account_id b \<mapsto> b\<lparr>balance := IntegerValue (y + amount)\<rparr>],
        pending = (if sf then [(''ACC001'', 999)] else [])\<rparr> t"
proof -
  have bm: "b \<in> set t" "account_number b = to"
    using b by (auto simp: lookup_def find_Some_iff)
  have idne: "account_id b \<noteq> account_id a"
    using wf_row_by_id [OF wf a bm(1)] bm(2) ne by simp
  have q1: "query_first f t new_session =
      (Some a, \<lparr>identity_map = [account_id a \<mapsto> a], pending = []\<rparr>)"
    using a by (simp add: query_first_def new_session_def lookup_def)
  have q2: "query_first to t \<lparr>identity_map = [account_id a \<mapsto> a], pending = []\<rparr> =
      (Some b, \<lparr>identity_map = [account_id a \<mapsto> a, account_id b \<mapsto> b], pending = []\<rparr>)"
    using b idne by (simp add: query_first_def lookup_def)
  have a3: "assign_balance (account_id a) (-) amount
        \<lparr>identity_map = [account_id a \<mapsto> a, account_id b \<mapsto> b], pending = []\<rparr> =
      Inr \<lparr>identity_map = [account_id a \<mapsto> a\<lparr>balance := IntegerValue (x - amount)\<rparr>,
                            account_id b \<mapsto> b], pending = []\<rparr>"
    using idne ba by (simp add: assign_balance_def fun_upd_twist)
  have a4: "assign_balance (account_id b) (+) amount
        \<lparr>identity_map = [account_id a \<mapsto> a\<lparr>balance := IntegerValue (x - amount)\<rparr>,
                          account_id b \<mapsto> b], pending = []\<rparr> =
      Inr \<lparr>identity_map = [account_id a \<mapsto> a\<lparr>balance := IntegerValue (x - amount)\<rparr>,
                            account_id b \<mapsto> b\<lparr>balance := IntegerValue (y + amount)\<rparr>],
           pending = []\<rparr>"
    using idne bb by (simp add: assign_balance_def)
  show ?thesis
    using enough ba
    by (simp add: transfer_session_def q1 q2 a3 a4 session_add_def)
qed

lemma transfer_session_one:
  assumes a: "lookup t f = Some a"
    and ba: "balance a = IntegerValue x"
    and enough: "\<not> x < amount"
  shows "transfer_session f f amount sf t =
     session_commit
       \<lparr>identity_map = [account_id a \<mapsto> a],
        pending = (if sf then [(''ACC001'', 999)] else [])\<rparr> t"
proof -
  have q1: "query_first f t new_session =
      (Some a, \<lparr>identity_map = [account_id a \<mapsto> a], pending = []\<rparr>)"
    using a by (simp add: query_first_def new_session_def lookup_def)
  have q2: "query_first f t \<lparr>identity_map = [account_id a \<mapsto> a], pending = []\<rparr> =
      (Some a, \<lparr>identity_map = [account_id a \<mapsto> a], pending = []\<rparr>)"
    using a by (simp add: query_first_def lookup_def)
  have a3: "assign_balance (account_id a) (-) amount
        \<lparr>identity_map = [account_id a \<mapsto> a], pending = []\<rparr> =
      Inr \<lparr>identity_map = [account_id a \<mapsto> a\<lparr>balance := IntegerValue (x - amount)\<rparr>],
           pending = []\<rparr>"
    using ba by (simp add: assign_balance_def)
  have same: "a\<lparr>balance := IntegerValue x\<rparr> = a"
    using ba by (cases a) simp
  have a4: "assign_balance (account_id a) (+) amount
        \<lparr>identity_map = [account_id a \<mapsto> a\<lparr>balance := IntegerValue (x - amount)\<rparr>],
          pending = []\<rparr> =
      Inr \<lparr>identity_map = [account_id a \<mapsto> a], pending = []\<rparr>"
    by (simp add: assign_balance_def same)
  show ?thesis
    using enough ba
    by (simp add: transfer_session_def q1 q2 a3 a4 session_add_def)
qed

lemma flush_two:
  assumes wf: "wf_table t"
    and a: "lookup t f = Some a" and b: "lookup t to = Some b"
    and ne: "f \<noteq> to"
    and ra: "in_int64 va" and rb: "in_int64 vb"
  shows "flush_updates
           \<lparr>identity_map = [account_id a \<mapsto> a\<lparr>balance := IntegerValue va\<rparr>,
                            account_id b \<mapsto> b\<lparr>balance := IntegerValue vb\<rparr>],
            pending = p\<rparr> t =
         Inr (snd (update_balance to (\<lambda>v. IntegerValue vb)
                (snd (update_balance f (\<lambda>v. IntegerValue va) t))))"
proof -
  let ?s = "\<lparr>identity_map = [account_id a \<mapsto> a\<lparr>balance := IntegerValue va\<rparr>,
                              account_id b \<mapsto> b\<lparr>balance := IntegerValue vb\<rparr>],
             pending = p\<rparr>"
  have ida: "account_id r = account_id a \<longleftrightarrow> account_number r = f" if "r \<in> set t" for r
    using wf a that by (rule wf_row_by_id)
  have idb: "account_id r = account_id b \<longleftrightarrow> account_number r = to" if "r \<in> set t" for r
    using wf b that by (rule wf_row_by_id)
  have eqa: "r = a" if "r \<in> set t" "account_number r = f" for r
    using wf a that by (rule wf_row_by_number)
  have eqb: "r = b" if "r \<in> set t" "account_number r = to" for r
    using wf b that by (rule wf_row_by_number)
  have no_failure: "\<not> list_ex (\<lambda>r. dirty ?s r \<and>
            (case identity_map ?s (account_id r) of
               None \<Rightarrow> False
             | Some obj \<Rightarrow> \<not> storable (balance obj))) t"
    using ra rb by (auto simp: list_ex_iff split: option.splits if_splits)
  have row: "(case identity_map ?s (account_id r) of
                None \<Rightarrow> r
              | Some obj \<Rightarrow> if dirty ?s r then obj\<lparr>balance := stored (balance obj)\<rparr> else r) =
             (if account_number r = to then r\<lparr>balance := IntegerValue vb\<rparr>
              else if account_number r = f then r\<lparr>balance := IntegerValue va\<rparr> else r)"
    if "r \<in> set t" for r
  proof (cases "account_number r = to")
    case True
    then have "r = b" using that eqb by simp
    then show ?thesis
      using True by (cases b) (auto simp: dirty_def)
  next
    case False
    note nto = this
    show ?thesis
    proof (cases "account_number r = f")
      case True
      then have ra': "r = a" using that eqa by simp
      have "account_id a \<noteq> account_id b"
        using idb [OF that] nto ra' by simp
      then show ?thesis
        using True nto ra' by (cases a) (auto simp: dirty_def)
    next
      case False
      then show ?thesis
        using nto ida [OF that] idb [OF that] by simp
    qed
  qed
  have "map (\<lambda>r. case identity_map ?s (account_id r) of
                None \<Rightarrow> r
              | Some obj \<Rightarrow> if dirty ?s r then obj\<lparr>balance := stored (balance obj)\<rparr> else r) t =
        map (\<lambda>r. if account_number r = to then r\<lparr>balance := IntegerValue vb\<rparr>
              else if account_number r = f then r\<lparr>balance := IntegerValue va\<rparr> else r) t"
    using row by (rule map_cong [OF refl])
  also have "\<dots> = snd (update_balance to (\<lambda>v. IntegerValue vb)
                (snd (update_balance f (\<lambda>v. IntegerValue va) t)))"
    using ne by (induction t) (auto simp: update_balance_def)
  finally show ?thesis
    unfolding flush_updates_def using no_failure by simp
qed

lemma flush_one:
  assumes wf: "wf_table t" and a: "lookup t f = Some a"
  shows "flush_updates \<lparr>identity_map = [account_id a \<mapsto> a], pending = p\<rparr> t = Inr t"
proof -
  let ?s = "\<lparr>identity_map = [account_id a \<mapsto> a], pending = p\<rparr>"
  have clean: "\<not> dirty ?s r" if "r \<in> set t" for r
  proof (cases "account_id r = account_id a")
    case True
    then have "r = a"
      using wf_row_by_id [OF wf a that] wf_row_by_number [OF wf a that] by simp
    then show ?thesis by (simp add: dirty_def)
  next
    case False
    then show ?thesis by (simp add: dirty_def)
  qed
  have "map (\<lambda>r. case identity_map ?s (account_id r) of
                None \<Rightarrow> r
              | Some obj \<Rightarrow> if dirty ?s r then obj\<lparr>balance := stored (balance obj)\<rparr> else r) t =
        map (\<lambda>r. r) t"
    by (rule map_cong [OF refl]) (use clean in \<open>auto split: option.splits\<close>)
  moreover have "\<not> list_ex (\<lambda>r. dirty ?s r \<and>
            (case identity_map ?s (account_id r) of
               None \<Rightarrow> False
             | Some obj \<Rightarrow> \<not> storable (balance obj))) t"
    using clean by (auto simp: list_ex_iff)
  ultimately show ?thesis
    unfolding flush_updates_def by simp
qed

section \<open>The printed balances\<close>

lemma sort_key_order_independent:
  assumes "distinct (map account_number t)" and "mset t' = mset t"
  shows "sort_key account_number t' = sort_key account_number t"
proof (rule sort_key_inj_key_eq)
  show "mset t' = mset (sort_key account_number t)"
    using assms(2) by simp
  have "set t' = set t"
    using assms(2) by (rule mset_eq_setD)
  then show "inj_on account_number (set t')"
    using assms(1) by (simp add: distinct_map)
  show "sorted (map account_number (sort_key account_number t))"
    by simp
qed

section \<open>The seeded tables, evaluated\<close>

lemma setup_accounts_table_seed: "setup_accounts_table engine = Inr core_seed"
  by (simp add: setup_accounts_table_def initial_data_def insert_row_def next_id_def
        core_seed_def in_int64_def)

lemma setup_accounts_orm_table_seed: "setup_accounts_orm_table engine = Inr orm_seed"
  by (simp add: setup_accounts_orm_table_def initial_data_orm_def session_commit_def
        flush_updates_def new_session_def insert_row_def next_id_def orm_seed_def in_int64_def)

lemma wf_core_seed: "wf_table core_seed"
  by (simp add: wf_table_def unique_keys_def core_seed_def in_int64_def)

lemma wf_orm_seed: "wf_table orm_seed"
  by (simp add: wf_table_def unique_keys_def orm_seed_def in_int64_def)

lemma lookup_core_seed:
  "lookup core_seed ''ACC001'' =
     Some \<lparr>account_id = 1, account_number = ''ACC001'', balance = IntegerValue 1000\<rparr>"
  "lookup core_seed ''ACC002'' =
     Some \<lparr>account_id = 2, account_number = ''ACC002'', balance = IntegerValue 2000\<rparr>"
  "lookup core_seed ''ACC003'' =
     Some \<lparr>account_id = 3, account_number = ''ACC003'', balance = IntegerValue 3000\<rparr>"
  "lookup core_seed ''NOPE'' = None"
  by (simp_all add: lookup_def core_seed_def)

lemma lookup_orm_seed:
  "lookup orm_seed ''ACC001'' =
     Some \<lparr>account_id = 1, account_number = ''ACC001'', balance = IntegerValue 1000\<rparr>"
  "lookup orm_seed ''ACC002'' =
     Some \<lparr>account_id = 2, account_number = ''ACC002'', balance = IntegerValue 500\<rparr>"
  "lookup orm_seed ''ACC003'' =
     Some \<lparr>account_id = 3, account_number = ''ACC003'', balance = IntegerValue 200\<rparr>"
  "lookup orm_seed ''NONEXISTENT'' = None"
  "lookup orm_seed ''NOPE'' = None"
  by (simp_all add: lookup_def orm_seed_def)

lemma printed_orm_seed:
  "fst (get_account_balances orm_seed) =
     [(''ACC001'', IntegerValue 1000), (''ACC002'', IntegerValue 500),
      (''ACC003'', IntegerValue 200)]"
  "fst (get_account_balances_orm orm_seed) =
     [(''ACC001'', IntegerValue 1000), (''ACC002'', IntegerValue 500),
      (''ACC003'', IntegerValue 200)]"
  by (simp_all add: get_account_balances_def get_account_balances_orm_def orm_seed_def)

lemma numbers_orm_seed: "map account_number orm_seed = [''ACC001'', ''ACC002'', ''ACC003'']"
  by (simp add: orm_seed_def)

lemma orm_script_body_runs: "\<exists>r. orm_script_body engine = Inr r"
  by (simp add: orm_script_body_def setup_accounts_orm_table_seed get_account_balances_orm_def
        transfer_funds_orm_def split: sum.splits prod.splits)

section \<open>The transfers at the 64-bit boundary\<close>

text \<open>
  A self-transfer in the Core script whose deduction leaves the 64-bit range is computed
  in double precision and committed with a changed balance; an ORM transfer whose credit
  leaves the range cannot be flushed and is rolled back.
\<close>

lemma core_self_transfer_at_boundary:
  "transfer_funds
     [\<lparr>account_id = 1, account_number = ''ACC001'', balance = IntegerValue (- 9223372036854775807)\<rparr>]
     ''ACC001'' ''ACC001'' 5000 False =
     (Committed,
      [(''ACC001'', IntegerValue (- 9223372036854774784))],
      [\<lparr>account_id = 1, account_number = ''ACC001'', balance = IntegerValue (- 9223372036854774784)\<rparr>])"
proof -
  have d1: "nearest_double (- 9223372036854775807) = - 9223372036854775808"
    by (simp add: nearest_double_def round53_def ulp.simps Let_def)
  have d2: "nearest_double 5000 = 5000"
    by (simp add: nearest_double_def round53_def ulp.simps Let_def)
  have d3: "as_real (- 9223372036854780808) = RealValue (- 9223372036854779904)"
    by (simp add: as_real_def nearest_double_def round53_def ulp.simps Let_def)
  have d4: "as_real (- 9223372036854774904) = RealValue (- 9223372036854774784)"
    by (simp add: as_real_def nearest_double_def round53_def ulp.simps Let_def)
  have debit: "stored (sql_arith (-) (IntegerValue (- 9223372036854775807)) 5000) =
      RealValue (- 9223372036854779904)"
    by (simp add: in_int64_def d1 d2 d3)
  have credit: "stored (sql_arith (+) (RealValue (- 9223372036854779904)) 5000) =
      IntegerValue (- 9223372036854774784)"
    by (simp add: d2 d4)
  show ?thesis
    by (simp add: in_int64_def transfer_funds_def transfer_statements_def
          execute_update_def update_balance_def get_account_balances_def credit debit
          del: sql_arith.simps stored.simps)
qed

lemma orm_flush_overflow:
  "transfer_funds_orm
     [\<lparr>account_id = 1, account_number = ''ACC001'', balance = IntegerValue 1000\<rparr>,
      \<lparr>account_id = 2, account_number = ''ACC002'', balance = IntegerValue 9223372036854775807\<rparr>]
     ''ACC001'' ''ACC002'' 1 False =
     (RolledBack OverflowError,
      [(''ACC001'', IntegerValue 1000), (''ACC002'', IntegerValue 9223372036854775807)],
      [\<lparr>account_id = 1, account_number = ''ACC001'', balance = IntegerValue 1000\<rparr>,
       \<lparr>account_id = 2, account_number = ''ACC002'', balance = IntegerValue 9223372036854775807\<rparr>])"
  by (simp add: transfer_funds_orm_def transfer_session_def query_first_def
        new_session_def assign_balance_def session_commit_def
        flush_updates_def dirty_def get_account_balances_orm_def in_int64_def)

section \<open>The claims\<close>

subsection \<open>C1: atomicity under the simulated fault\<close>

text \<open>
  Claim C1: for every transfer with the fault flag on an existing source account, the
  source's balance afterwards is its balance before. \<^verbatim>\<open>transfer_funds\<close> keeps it: with
  the flag it never commits (\<open>core_fault_rolls_back\<close>). \<^verbatim>\<open>transfer_funds_orm\<close> does
  not: its comments announce a simulated error by \<^verbatim>\<open>Adding a duplicate record\<close>, but the
  record added is the constant ACC001, which duplicates nothing on a table that holds no
  such account. There the transfer commits, the source is debited and a row ACC001 is
  created, where the Core function on the same input rolls back.
\<close>

theorem orm_fault_commits:
  "lookup [\<lparr>account_id = 1, account_number = ''ACC002'', balance = IntegerValue 500\<rparr>,
           \<lparr>account_id = 2, account_number = ''ACC003'', balance = IntegerValue 200\<rparr>] ''ACC002'' =
     Some \<lparr>account_id = 1, account_number = ''ACC002'', balance = IntegerValue 500\<rparr> \<and>
   transfer_funds_orm
     [\<lparr>account_id = 1, account_number = ''ACC002'', balance = IntegerValue 500\<rparr>,
      \<lparr>account_id = 2, account_number = ''ACC003'', balance = IntegerValue 200\<rparr>]
     ''ACC002'' ''ACC003'' 100 True =
     (Committed,
      [(''ACC001'', IntegerValue 999), (''ACC002'', IntegerValue 400),
       (''ACC003'', IntegerValue 300)],
      [\<lparr>account_id = 1, account_number = ''ACC002'', balance = IntegerValue 400\<rparr>,
       \<lparr>account_id = 2, account_number = ''ACC003'', balance = IntegerValue 300\<rparr>,
       \<lparr>account_id = 3, account_number = ''ACC001'', balance = IntegerValue 999\<rparr>]) \<and>
   transfer_funds
     [\<lparr>account_id = 1, account_number = ''ACC002'', balance = IntegerValue 500\<rparr>,
      \<lparr>account_id = 2, account_number = ''ACC003'', balance = IntegerValue 200\<rparr>]
     ''ACC002'' ''ACC003'' 100 True =
     (RolledBack SimulatedFailure,
      [(''ACC002'', IntegerValue 500), (''ACC003'', IntegerValue 200)],
      [\<lparr>account_id = 1, account_number = ''ACC002'', balance = IntegerValue 500\<rparr>,
       \<lparr>account_id = 2, account_number = ''ACC003'', balance = IntegerValue 200\<rparr>])"
  by (simp add: lookup_def transfer_funds_orm_def transfer_session_def query_first_def
        new_session_def assign_balance_def session_add_def session_commit_def
        flush_updates_def dirty_def insert_row_def next_id_def get_account_balances_orm_def
        in_int64_def transfer_funds_def transfer_statements_def execute_update_def
        update_balance_def get_account_balances_def)

subsection \<open>C2: conservation\<close>

text \<open>
  Claim C2 as the specification states it (every committed transfer between two distinct
  existing accounts preserves the sum of the two balances) fails at the 64-bit boundary:
  crediting 2 to a balance of \<open>2\<^sup>6\<^sup>3 - 1\<close> in the Core script is computed in double
  precision, the transfer commits and the sum is one less than before.
\<close>

theorem conservation_counterexample:
  "wf_table
     [\<lparr>account_id = 1, account_number = ''ACC001'', balance = IntegerValue 1000\<rparr>,
      \<lparr>account_id = 2, account_number = ''ACC002'', balance = IntegerValue 9223372036854775807\<rparr>] \<and>
   transfer_funds
     [\<lparr>account_id = 1, account_number = ''ACC001'', balance = IntegerValue 1000\<rparr>,
      \<lparr>account_id = 2, account_number = ''ACC002'', balance = IntegerValue 9223372036854775807\<rparr>]
     ''ACC001'' ''ACC002'' 2 False =
     (Committed,
      [(''ACC001'', IntegerValue 998), (''ACC002'', RealValue 9223372036854775808)],
      [\<lparr>account_id = 1, account_number = ''ACC001'', balance = IntegerValue 998\<rparr>,
       \<lparr>account_id = 2, account_number = ''ACC002'', balance = RealValue 9223372036854775808\<rparr>]) \<and>
   pair_sum
     [\<lparr>account_id = 1, account_number = ''ACC001'', balance = IntegerValue 1000\<rparr>,
      \<lparr>account_id = 2, account_number = ''ACC002'', balance = IntegerValue 9223372036854775807\<rparr>]
     ''ACC001'' ''ACC002'' = Some 9223372036854776807 \<and>
   pair_sum
     [\<lparr>account_id = 1, account_number = ''ACC001'', balance = IntegerValue 998\<rparr>,
      \<lparr>account_id = 2, account_number = ''ACC002'', balance = RealValue 9223372036854775808\<rparr>]
     ''ACC001'' ''ACC002'' = Some 9223372036854776806"
proof -
  have d1: "nearest_double 9223372036854775807 = 9223372036854775808"
    by (simp add: nearest_double_def round53_def ulp.simps Let_def)
  have d2: "nearest_double 2 = 2"
    by (simp add: nearest_double_def round53_def ulp.simps Let_def)
  have d3: "as_real 9223372036854775810 = RealValue 9223372036854775808"
    by (simp add: as_real_def nearest_double_def round53_def ulp.simps Let_def)
  have credit: "stored (sql_arith (+) (IntegerValue 9223372036854775807) 2) =
      RealValue 9223372036854775808"
    by (simp add: in_int64_def d1 d2 d3)
  have debit: "stored (sql_arith (-) (IntegerValue 1000) 2) = IntegerValue 998"
    by (simp add: in_int64_def)
  show ?thesis
    by (simp add: wf_table_def unique_keys_def in_int64_def transfer_funds_def transfer_statements_def
          execute_update_def update_balance_def get_account_balances_def credit debit
          pair_sum_def balance_of_def lookup_def del: sql_arith.simps stored.simps)
qed

text \<open>
  Claim C2, amended. When a transfer between two distinct existing accounts with integer
  balances commits, and the two new balances are 64-bit integers, the sum of the two
  balances afterwards is the sum before and every other account number has the balance
  it had, or none as before. This holds of \<^verbatim>\<open>transfer_funds\<close>, and of
  \<^verbatim>\<open>transfer_funds_orm\<close> without the fault flag.
\<close>

theorem conservation:
  assumes wf: "wf_table t"
    and ne: "from_account \<noteq> to_account"
    and a: "lookup t from_account = Some a"
    and b: "lookup t to_account = Some b"
    and ba: "balance a = IntegerValue x"
    and bb: "balance b = IntegerValue y"
    and ra: "in_int64 (x - amount)"
    and rb: "in_int64 (y + amount)"
  shows "(fst (transfer_funds t from_account to_account amount should_fail) = Committed \<longrightarrow>
            pair_sum t from_account to_account = Some (x + y) \<and>
            pair_sum (snd (snd (transfer_funds t from_account to_account amount should_fail)))
              from_account to_account = Some (x + y) \<and>
            (\<forall>k. k \<noteq> from_account \<and> k \<noteq> to_account \<longrightarrow>
               balance_of (snd (snd (transfer_funds t from_account to_account amount should_fail))) k =
               balance_of t k)) \<and>
         (fst (transfer_funds_orm t from_account to_account amount False) = Committed \<longrightarrow>
            pair_sum t from_account to_account = Some (x + y) \<and>
            pair_sum (snd (snd (transfer_funds_orm t from_account to_account amount False)))
              from_account to_account = Some (x + y) \<and>
            (\<forall>k. k \<noteq> from_account \<and> k \<noteq> to_account \<longrightarrow>
               balance_of (snd (snd (transfer_funds_orm t from_account to_account amount False))) k =
               balance_of t k))"
proof -
  let ?core = "snd (update_balance to_account (\<lambda>v. stored (sql_arith (+) v amount))
                (snd (update_balance from_account (\<lambda>v. stored (sql_arith (-) v amount)) t)))"
  let ?orm = "snd (update_balance to_account (\<lambda>v. IntegerValue (y + amount))
                (snd (update_balance from_account (\<lambda>v. IntegerValue (x - amount)) t)))"
  have bal_a: "balance_of t from_account = Some (IntegerValue x)"
    and bal_b: "balance_of t to_account = Some (IntegerValue y)"
    using a b ba bb by (simp_all add: balance_of_def)
  have before: "pair_sum t from_account to_account = Some (x + y)"
    using bal_a bal_b by (rule pair_sum_integers)
  have "balance_of ?core from_account = Some (IntegerValue (x - amount))"
    and "balance_of ?core to_account = Some (IntegerValue (y + amount))"
    using bal_a bal_b ne ra rb by (simp_all add: balance_of_update_balance)
  then have "pair_sum ?core from_account to_account = Some ((x - amount) + (y + amount))"
    by (rule pair_sum_integers)
  then have after_core: "pair_sum ?core from_account to_account = Some (x + y)"
    by simp
  have "balance_of ?orm from_account = Some (IntegerValue (x - amount))"
    and "balance_of ?orm to_account = Some (IntegerValue (y + amount))"
    using bal_a bal_b ne by (simp_all add: balance_of_update_balance)
  then have "pair_sum ?orm from_account to_account = Some ((x - amount) + (y + amount))"
    by (rule pair_sum_integers)
  then have after_orm: "pair_sum ?orm from_account to_account = Some (x + y)"
    by simp
  have others_core: "balance_of ?core k = balance_of t k"
    if "k \<noteq> from_account" "k \<noteq> to_account" for k
    using that by (simp add: balance_of_update_balance)
  have others_orm: "balance_of ?orm k = balance_of t k"
    if "k \<noteq> from_account" "k \<noteq> to_account" for k
    using that by (simp add: balance_of_update_balance)
  have core: "snd (snd (transfer_funds t from_account to_account amount should_fail)) = ?core"
    if c: "fst (transfer_funds t from_account to_account amount should_fail) = Committed"
  proof (cases "in_int64 amount")
    case True
    then show ?thesis
      using a b c
      by (cases should_fail)
         (auto simp: transfer_funds_def transfer_statements_plain transfer_statements_fault
            get_account_balances_def split: if_splits)
  next
    case False
    then show ?thesis
      using c by (simp add: transfer_funds_def transfer_statements_overflow)
  qed
  have orm: "snd (snd (transfer_funds_orm t from_account to_account amount False)) = ?orm"
    if c: "fst (transfer_funds_orm t from_account to_account amount False) = Committed"
  proof (cases "x < amount")
    case True
    then show ?thesis
      using a ba c by (simp add: transfer_funds_orm_def transfer_session_insufficient)
  next
    case False
    show ?thesis
      by (simp add: transfer_funds_orm_def transfer_session_two [OF wf a b ne ba bb False]
            session_commit_def flush_two [OF wf a b ne ra rb] get_account_balances_orm_def)
  qed
  show ?thesis
  proof (intro conjI impI allI)
    assume c: "fst (transfer_funds t from_account to_account amount should_fail) = Committed"
    show "pair_sum t from_account to_account = Some (x + y)"
      by (rule before)
    show "pair_sum (snd (snd (transfer_funds t from_account to_account amount should_fail)))
        from_account to_account = Some (x + y)"
      using core [OF c] after_core by simp
    fix k assume "k \<noteq> from_account \<and> k \<noteq> to_account"
    then show "balance_of (snd (snd (transfer_funds t from_account to_account amount should_fail))) k =
        balance_of t k"
      using core [OF c] others_core by simp
  next
    assume c: "fst (transfer_funds_orm t from_account to_account amount False) = Committed"
    show "pair_sum t from_account to_account = Some (x + y)"
      by (rule before)
    show "pair_sum (snd (snd (transfer_funds_orm t from_account to_account amount False)))
        from_account to_account = Some (x + y)"
      using orm [OF c] after_orm by simp
    fix k assume "k \<noteq> from_account \<and> k \<noteq> to_account"
    then show "balance_of (snd (snd (transfer_funds_orm t from_account to_account amount False))) k =
        balance_of t k"
      using orm [OF c] others_orm by simp
  qed
qed

theorem conservation_witness:
  "wf_table orm_seed \<and>
   ''ACC001'' \<noteq> ''ACC002'' \<and>
   lookup orm_seed ''ACC001'' =
     Some \<lparr>account_id = 1, account_number = ''ACC001'', balance = IntegerValue 1000\<rparr> \<and>
   lookup orm_seed ''ACC002'' =
     Some \<lparr>account_id = 2, account_number = ''ACC002'', balance = IntegerValue 500\<rparr> \<and>
   in_int64 (1000 - 200) \<and> in_int64 (500 + 200) \<and>
   fst (transfer_funds orm_seed ''ACC001'' ''ACC002'' 200 False) = Committed \<and>
   fst (transfer_funds_orm orm_seed ''ACC001'' ''ACC002'' 200 False) = Committed \<and>
   pair_sum orm_seed ''ACC001'' ''ACC002'' = Some 1500 \<and>
   pair_sum (snd (snd (transfer_funds orm_seed ''ACC001'' ''ACC002'' 200 False)))
     ''ACC001'' ''ACC002'' = Some 1500 \<and>
   pair_sum (snd (snd (transfer_funds_orm orm_seed ''ACC001'' ''ACC002'' 200 False)))
     ''ACC001'' ''ACC002'' = Some 1500 \<and>
   balance_of (snd (snd (transfer_funds orm_seed ''ACC001'' ''ACC002'' 200 False))) ''ACC003'' =
     balance_of orm_seed ''ACC003'' \<and>
   balance_of (snd (snd (transfer_funds_orm orm_seed ''ACC001'' ''ACC002'' 200 False))) ''ACC003'' =
     balance_of orm_seed ''ACC003''"
proof -
  have ne: "''ACC001'' \<noteq> ''ACC002''"
    by simp
  have a: "lookup orm_seed ''ACC001'' =
      Some \<lparr>account_id = 1, account_number = ''ACC001'', balance = IntegerValue 1000\<rparr>"
    by (rule lookup_orm_seed(1))
  have b: "lookup orm_seed ''ACC002'' =
      Some \<lparr>account_id = 2, account_number = ''ACC002'', balance = IntegerValue 500\<rparr>"
    by (rule lookup_orm_seed(2))
  have ba: "balance \<lparr>account_id = 1, account_number = ''ACC001'', balance = IntegerValue 1000\<rparr> =
      IntegerValue 1000"
    and bb: "balance \<lparr>account_id = 2, account_number = ''ACC002'', balance = IntegerValue 500\<rparr> =
      IntegerValue 500"
    by simp_all
  have ra: "in_int64 (1000 - 200)" and rb: "in_int64 (500 + 200)" and r: "in_int64 200"
    by (simp_all add: in_int64_def)
  have enough: "\<not> (1000 :: int) < 200"
    by simp
  have c1: "fst (transfer_funds orm_seed ''ACC001'' ''ACC002'' 200 False) = Committed"
    by (simp add: transfer_funds_def transfer_statements_plain [OF r] a b)
  have c2: "fst (transfer_funds_orm orm_seed ''ACC001'' ''ACC002'' 200 False) = Committed"
    unfolding transfer_funds_orm_def
      transfer_session_two [OF wf_orm_seed a b ne ba bb enough]
      session_commit_def flush_two [OF wf_orm_seed a b ne ra rb]
    by simp
  note th = conservation [OF wf_orm_seed ne a b ba bb ra rb, of False]
  from th c1 have core:
    "pair_sum orm_seed ''ACC001'' ''ACC002'' = Some (1000 + 500) \<and>
     pair_sum (snd (snd (transfer_funds orm_seed ''ACC001'' ''ACC002'' 200 False)))
       ''ACC001'' ''ACC002'' = Some (1000 + 500) \<and>
     (\<forall>k. k \<noteq> ''ACC001'' \<and> k \<noteq> ''ACC002'' \<longrightarrow>
        balance_of (snd (snd (transfer_funds orm_seed ''ACC001'' ''ACC002'' 200 False))) k =
        balance_of orm_seed k)"
    by simp
  from th c2 have orm:
    "pair_sum (snd (snd (transfer_funds_orm orm_seed ''ACC001'' ''ACC002'' 200 False)))
       ''ACC001'' ''ACC002'' = Some (1000 + 500) \<and>
     (\<forall>k. k \<noteq> ''ACC001'' \<and> k \<noteq> ''ACC002'' \<longrightarrow>
        balance_of (snd (snd (transfer_funds_orm orm_seed ''ACC001'' ''ACC002'' 200 False))) k =
        balance_of orm_seed k)"
    by simp
  have k: "''ACC003'' \<noteq> ''ACC001'' \<and> ''ACC003'' \<noteq> ''ACC002''"
    by simp
  from core have "''ACC003'' \<noteq> ''ACC001'' \<and> ''ACC003'' \<noteq> ''ACC002'' \<longrightarrow>
      balance_of (snd (snd (transfer_funds orm_seed ''ACC001'' ''ACC002'' 200 False))) ''ACC003'' =
      balance_of orm_seed ''ACC003''"
    by (elim conjE allE [of _ "''ACC003''"])
  with k have o1:
    "balance_of (snd (snd (transfer_funds orm_seed ''ACC001'' ''ACC002'' 200 False))) ''ACC003'' =
      balance_of orm_seed ''ACC003''"
    by (rule rev_mp)
  from orm have "''ACC003'' \<noteq> ''ACC001'' \<and> ''ACC003'' \<noteq> ''ACC002'' \<longrightarrow>
      balance_of (snd (snd (transfer_funds_orm orm_seed ''ACC001'' ''ACC002'' 200 False))) ''ACC003'' =
      balance_of orm_seed ''ACC003''"
    by (elim conjE allE [of _ "''ACC003''"])
  with k have o2:
    "balance_of (snd (snd (transfer_funds_orm orm_seed ''ACC001'' ''ACC002'' 200 False))) ''ACC003'' =
      balance_of orm_seed ''ACC003''"
    by (rule rev_mp)
  have s: "Some ((1000::int) + 500) = Some 1500"
    by simp
  show ?thesis
    using wf_orm_seed ne a b ra rb c1 c2 core orm o1 o2 unfolding s
    by (intro conjI) (elim conjE, assumption)+
qed

subsection \<open>C3: how the fault is injected\<close>

text \<open>
  Claim C3 as the specification states it (the fault is a row with a duplicate account
  number, and the commit fails on the uniqueness constraint, by no other mechanism) fails
  for \<^verbatim>\<open>transfer_funds\<close>: on the seeded table the row ACC999 is no duplicate, the
  insert is accepted, and the transfer ends by the exception the function raises itself,
  before any commit.
\<close>

theorem fault_injection_counterexample:
  "lookup core_seed ''ACC001'' =
     Some \<lparr>account_id = 1, account_number = ''ACC001'', balance = IntegerValue 1000\<rparr> \<and>
   ''ACC999'' \<notin> set (map account_number core_seed) \<and>
   transfer_statements ''ACC001'' ''ACC003'' 50 True core_seed = Inl SimulatedFailure \<and>
   fst (transfer_funds core_seed ''ACC001'' ''ACC003'' 50 True) = RolledBack SimulatedFailure"
  by (simp add: core_seed_def lookup_def transfer_funds_def transfer_statements_def
        execute_update_def update_balance_def insert_row_def in_int64_def)

text \<open>
  Claim C3, amended. With the fault flag set, the source account existing and the
  amount a 64-bit integer, \<^verbatim>\<open>transfer_funds\<close> inserts a row numbered ACC999 and is
  rolled back before the credit: by an integrity error when the table holds ACC999, by
  the simulated failure it raises itself otherwise. In \<^verbatim>\<open>transfer_funds_orm\<close>, when the
  source has the funds, the destination exists, the new balances are 64-bit integers and
  the row it adds repeats an account number of the table (ACC001), the commit fails with
  an integrity error.
\<close>

theorem fault_injection:
  assumes a: "lookup t from_account = Some a"
  shows "(in_int64 amount \<longrightarrow>
            fst (transfer_funds t from_account to_account amount True) =
              RolledBack (if ''ACC999'' \<in> set (map account_number t)
                          then IntegrityError ''ACC999'' else SimulatedFailure)) \<and>
         (wf_table t \<and> balance a = IntegerValue x \<and> \<not> x < amount \<and>
          lookup t to_account = Some b \<and> balance b = IntegerValue y \<and>
          in_int64 (x - amount) \<and> in_int64 (y + amount) \<and>
          ''ACC001'' \<in> set (map account_number t) \<longrightarrow>
            transfer_session from_account to_account amount True t =
              Inl (IntegrityError ''ACC001'') \<and>
            fst (transfer_funds_orm t from_account to_account amount True) =
              RolledBack (IntegrityError ''ACC001''))"
proof -
  have core: "fst (transfer_funds t from_account to_account amount True) =
      RolledBack (if ''ACC999'' \<in> set (map account_number t)
                  then IntegrityError ''ACC999'' else SimulatedFailure)"
    if "in_int64 amount"
    using a that by (simp add: transfer_funds_def transfer_statements_fault)
  have orm: "transfer_session from_account to_account amount True t =
      Inl (IntegrityError ''ACC001'')"
    if wf: "wf_table t" and ba: "balance a = IntegerValue x" and enough: "\<not> x < amount"
      and b: "lookup t to_account = Some b" and bb: "balance b = IntegerValue y"
      and ra: "in_int64 (x - amount)" and rb: "in_int64 (y + amount)"
      and dup: "''ACC001'' \<in> set (map account_number t)"
  proof (cases "from_account = to_account")
    case True
    have "transfer_session from_account from_account amount True t =
        insert_rows [(''ACC001'', 999)] t"
      by (simp add: transfer_session_one [OF a ba enough] session_commit_def
            flush_one [OF wf a])
    then show ?thesis
      using True insert_acc001_duplicate [OF refl dup] by simp
  next
    case False
    have "transfer_session from_account to_account amount True t =
        insert_rows [(''ACC001'', 999)]
          (snd (update_balance to_account (\<lambda>v. IntegerValue (y + amount))
             (snd (update_balance from_account (\<lambda>v. IntegerValue (x - amount)) t))))"
      by (simp add: transfer_session_two [OF wf a b False ba bb enough] session_commit_def
            flush_two [OF wf a b False ra rb])
    then show ?thesis
      using insert_acc001_duplicate [OF numbers_after_updates dup] by simp
  qed
  show ?thesis
    using core orm by (simp add: transfer_funds_orm_def)
qed

theorem fault_injection_witness:
  "lookup orm_seed ''ACC001'' =
     Some \<lparr>account_id = 1, account_number = ''ACC001'', balance = IntegerValue 1000\<rparr> \<and>
   in_int64 500 \<and>
   wf_table orm_seed \<and>
   \<not> (1000 :: int) < 500 \<and>
   lookup orm_seed ''ACC003'' =
     Some \<lparr>account_id = 3, account_number = ''ACC003'', balance = IntegerValue 200\<rparr> \<and>
   in_int64 (1000 - 500) \<and> in_int64 (200 + 500) \<and>
   ''ACC001'' \<in> set (map account_number orm_seed) \<and>
   fst (transfer_funds orm_seed ''ACC001'' ''ACC003'' 500 True) = RolledBack SimulatedFailure \<and>
   fst (transfer_funds_orm orm_seed ''ACC001'' ''ACC003'' 500 True) =
     RolledBack (IntegrityError ''ACC001'')"
proof -
  have a: "lookup orm_seed ''ACC001'' =
      Some \<lparr>account_id = 1, account_number = ''ACC001'', balance = IntegerValue 1000\<rparr>"
    by (rule lookup_orm_seed)
  have b: "lookup orm_seed ''ACC003'' =
      Some \<lparr>account_id = 3, account_number = ''ACC003'', balance = IntegerValue 200\<rparr>"
    by (rule lookup_orm_seed)
  have r: "in_int64 500" "in_int64 (1000 - 500)" "in_int64 (200 + 500)"
    by (simp_all add: in_int64_def)
  have dup: "''ACC001'' \<in> set (map account_number orm_seed)"
    and fresh: "''ACC999'' \<notin> set (map account_number orm_seed)"
    by (simp_all add: numbers_orm_seed del: set_map)
  note th = fault_injection [OF a, of 500 "''ACC003''" 1000
      "\<lparr>account_id = 3, account_number = ''ACC003'', balance = IntegerValue 200\<rparr>" 200]
  have c1: "fst (transfer_funds orm_seed ''ACC001'' ''ACC003'' 500 True) =
      RolledBack SimulatedFailure"
    using th r(1) fresh by (simp del: set_map)
  have c2: "fst (transfer_funds_orm orm_seed ''ACC001'' ''ACC003'' 500 True) =
      RolledBack (IntegrityError ''ACC001'')"
    using th wf_orm_seed b r dup by (simp del: set_map)
  show ?thesis
    using a b r wf_orm_seed dup c1 c2 by (simp del: set_map)
qed

subsection \<open>C4: accounts that do not exist\<close>

text \<open>
  Claim C4 as the specification states it (a missing source or destination is reported
  as a not-found failure) fails when only the destination is missing: \<^verbatim>\<open>transfer_funds\<close>
  with the fault flag reports the simulated failure, which comes before the credit, and
  \<^verbatim>\<open>transfer_funds_orm\<close> reports insufficient funds when the source cannot pay, which it
  checks before it looks the destination up.
\<close>

theorem not_found_counterexample:
  "lookup core_seed ''NOPE'' = None \<and>
   fst (transfer_funds core_seed ''ACC001'' ''NOPE'' 50 True) = RolledBack SimulatedFailure \<and>
   lookup orm_seed ''NOPE'' = None \<and>
   fst (transfer_funds_orm orm_seed ''ACC003'' ''NOPE'' 500 False) =
     RolledBack (InsufficientFunds ''ACC003'')"
  by (simp add: core_seed_def orm_seed_def lookup_def transfer_funds_def transfer_statements_def
        execute_update_def update_balance_def insert_row_def in_int64_def
        transfer_funds_orm_def transfer_session_def query_first_def new_session_def)

text \<open>
  Claim C4, amended. When the source or the destination does not exist, both functions
  return a rolled-back outcome (no exception leaves them) and the table is unchanged.
  \<^verbatim>\<open>transfer_funds\<close> reports an overflow for an amount that is no 64-bit integer;
  otherwise not-found for a missing source, and for a missing destination not-found
  unless the fault flag is set (simulated failure, or integrity error when ACC999
  exists). \<^verbatim>\<open>transfer_funds_orm\<close> reports not-found for a missing source, and for a
  missing destination not-found unless the source's balance is below the amount
  (insufficient funds).
\<close>

theorem not_found_handling:
  assumes "lookup t from_account = None \<or> lookup t to_account = None"
  shows "transfer_funds t from_account to_account amount should_fail =
           (RolledBack
              (if in_int64 amount
               then (case lookup t from_account of
                       None \<Rightarrow> AccountNotFound from_account
                     | Some a \<Rightarrow>
                         if should_fail
                         then (if ''ACC999'' \<in> set (map account_number t)
                               then IntegrityError ''ACC999'' else SimulatedFailure)
                         else AccountNotFound to_account)
               else OverflowError),
            fst (get_account_balances t), t) \<and>
         transfer_funds_orm t from_account to_account amount should_fail =
           (RolledBack
              (case lookup t from_account of
                 None \<Rightarrow> AccountNotFound from_account
               | Some a \<Rightarrow>
                   if py_less (balance a) amount then InsufficientFunds from_account
                   else AccountNotFound to_account),
            fst (get_account_balances_orm t), t)"
proof -
  have core: "transfer_statements from_account to_account amount should_fail t =
      Inl (if in_int64 amount
           then (case lookup t from_account of
                   None \<Rightarrow> AccountNotFound from_account
                 | Some a \<Rightarrow>
                     if should_fail
                     then (if ''ACC999'' \<in> set (map account_number t)
                           then IntegrityError ''ACC999'' else SimulatedFailure)
                     else AccountNotFound to_account)
           else OverflowError)"
  proof (cases "in_int64 amount")
    case True
    then show ?thesis
      using assms
      by (cases should_fail)
         (auto simp: transfer_statements_plain transfer_statements_fault split: option.splits)
  next
    case False
    then show ?thesis
      by (simp add: transfer_statements_overflow)
  qed
  show ?thesis
    unfolding transfer_funds_def transfer_funds_orm_def core transfer_session_early [OF assms]
    by (simp add: get_account_balances_def get_account_balances_orm_def)
qed

theorem not_found_handling_witness:
  "lookup orm_seed ''NONEXISTENT'' = None \<and>
   in_int64 100 \<and>
   transfer_funds orm_seed ''NONEXISTENT'' ''ACC001'' 100 False =
     (RolledBack (AccountNotFound ''NONEXISTENT''),
      [(''ACC001'', IntegerValue 1000), (''ACC002'', IntegerValue 500),
       (''ACC003'', IntegerValue 200)], orm_seed) \<and>
   transfer_funds_orm orm_seed ''NONEXISTENT'' ''ACC001'' 100 False =
     (RolledBack (AccountNotFound ''NONEXISTENT''),
      [(''ACC001'', IntegerValue 1000), (''ACC002'', IntegerValue 500),
       (''ACC003'', IntegerValue 200)], orm_seed)"
proof -
  have h: "lookup orm_seed ''NONEXISTENT'' = None \<or> lookup orm_seed ''ACC001'' = None"
    by (simp add: lookup_orm_seed)
  have r: "in_int64 100"
    by (simp add: in_int64_def)
  show ?thesis
    using not_found_handling [OF h, of 100 False] r
    by (simp add: lookup_orm_seed printed_orm_seed)
qed

subsection \<open>C5: the scenario of the Core script\<close>

text \<open>
  Claim C5. From the seeded accounts ACC001 = 1000, ACC002 = 2000, ACC003 = 3000, the
  transfer of 100 from ACC001 to ACC002 commits and leaves 900, 2100, 3000; the
  transfer of 50 from ACC001 to ACC003 with the simulated fault is rolled back and
  leaves these balances; the transfer from an account that does not exist to ACC002 is
  rolled back with a not-found failure and leaves them too. This is the run of the
  script's body, whatever the table held before the setup.
\<close>

theorem core_scenario:
  "core_script_body engine0 =
     Inr ([(''ACC001'', IntegerValue 1000), (''ACC002'', IntegerValue 2000),
           (''ACC003'', IntegerValue 3000)],
          [(Committed,
              [(''ACC001'', IntegerValue 900), (''ACC002'', IntegerValue 2100),
               (''ACC003'', IntegerValue 3000)]),
           (RolledBack SimulatedFailure,
              [(''ACC001'', IntegerValue 900), (''ACC002'', IntegerValue 2100),
               (''ACC003'', IntegerValue 3000)]),
           (RolledBack (AccountNotFound ''NON_EXISTENT_ACC''),
              [(''ACC001'', IntegerValue 900), (''ACC002'', IntegerValue 2100),
               (''ACC003'', IntegerValue 3000)])],
          [\<lparr>account_id = 1, account_number = ''ACC001'', balance = IntegerValue 900\<rparr>,
           \<lparr>account_id = 2, account_number = ''ACC002'', balance = IntegerValue 2100\<rparr>,
           \<lparr>account_id = 3, account_number = ''ACC003'', balance = IntegerValue 3000\<rparr>])"
  by (simp add: core_script_body_def setup_accounts_table_def initial_data_def insert_row_def
        next_id_def get_account_balances_def transfer_funds_def transfer_statements_def
        execute_update_def update_balance_def in_int64_def)

subsection \<open>C6: the scripts at the process boundary\<close>

text \<open>
  Claim C6 as the specification states it (every script catches every error, reports it
  and exits with a non-zero status) fails on a store that cannot be opened: the Core
  script prints the error and ends with status 0, and the ORM script, which has no
  handler, ends with an uncaught exception.
\<close>

theorem scripts_exit_counterexample:
  "core_script_run None = Inl OperationalError \<and>
   main_core None = Exit 0 \<and>
   orm_script_run None = Inl OperationalError \<and>
   main_orm None = Uncaught OperationalError"
  by (simp add: core_script_run_def main_core_def orm_script_run_def main_orm_def)

text \<open>
  Claim C6, amended. The Core script wraps its body in a catch-all that prints the
  error; the process then ends with exit status 0, error or not. The ORM script has no
  catch-all: on a store that can be opened its demonstration ends with status 0, on one
  that cannot the exception reaches the process boundary and the status is 1.
\<close>

theorem scripts_exit:
  "main_core store = Exit 0 \<and>
   main_orm (Some engine) = Exit 0 \<and>
   main_orm None = Uncaught OperationalError \<and>
   exit_status (main_orm None) = 1"
proof -
  obtain r where "orm_script_body engine = Inr r"
    using orm_script_body_runs by blast
  then show ?thesis
    by (simp add: main_core_def main_orm_def orm_script_run_def split: sum.splits)
qed

subsection \<open>C7: insufficient funds in the ORM transfer\<close>

text \<open>
  Claim C7. When the source account exists and its balance is strictly less than the
  amount, \<^verbatim>\<open>transfer_funds_orm\<close> catches the failure itself: it returns the outcome
  rolled back for insufficient funds, prints the balances of the table as it was, and
  leaves the whole table as it was, whatever the destination and the fault flag are.
\<close>

theorem orm_insufficient_funds:
  assumes "lookup t from_account_number = Some a"
    and "py_less (balance a) amount"
  shows "transfer_funds_orm t from_account_number to_account_number amount should_fail =
           (RolledBack (InsufficientFunds from_account_number),
            fst (get_account_balances_orm t), t)"
  using assms
  by (simp add: transfer_funds_orm_def transfer_session_insufficient get_account_balances_orm_def)

theorem orm_insufficient_funds_witness:
  "lookup orm_seed ''ACC003'' =
     Some \<lparr>account_id = 3, account_number = ''ACC003'', balance = IntegerValue 200\<rparr> \<and>
   py_less (balance \<lparr>account_id = 3, account_number = ''ACC003'', balance = IntegerValue 200\<rparr>) 500 \<and>
   transfer_funds_orm orm_seed ''ACC003'' ''ACC002'' 500 False =
     (RolledBack (InsufficientFunds ''ACC003''),
      [(''ACC001'', IntegerValue 1000), (''ACC002'', IntegerValue 500),
       (''ACC003'', IntegerValue 200)], orm_seed)"
proof -
  have h1: "lookup orm_seed ''ACC003'' =
      Some \<lparr>account_id = 3, account_number = ''ACC003'', balance = IntegerValue 200\<rparr>"
    by (rule lookup_orm_seed)
  have h2: "py_less (balance \<lparr>account_id = 3, account_number = ''ACC003'',
      balance = IntegerValue 200\<rparr>) 500"
    by simp
  show ?thesis
    using h1 h2 printed_orm_seed(2) orm_insufficient_funds [OF h1 h2, of "''ACC002''" False]
    by simp
qed

subsection \<open>C8: the balance reader\<close>

text \<open>
  Claim C8. \<^verbatim>\<open>get_account_balances\<close> and \<^verbatim>\<open>get_account_balances_orm\<close> print the
  accounts of the table, each once, in ascending order of account number, and leave the
  table as it is; two tables with the same rows in a different insertion order print the
  same.
\<close>

theorem balances_sorted:
  "sorted (map fst (fst (get_account_balances t))) \<and>
   mset (fst (get_account_balances t)) = mset (map (\<lambda>r. (account_number r, balance r)) t) \<and>
   snd (get_account_balances t) = t \<and>
   sorted (map fst (fst (get_account_balances_orm t))) \<and>
   mset (fst (get_account_balances_orm t)) = mset (map (\<lambda>r. (account_number r, balance r)) t) \<and>
   snd (get_account_balances_orm t) = t \<and>
   (unique_keys t \<and> mset t' = mset t \<longrightarrow>
      fst (get_account_balances t') = fst (get_account_balances t) \<and>
      fst (get_account_balances_orm t') = fst (get_account_balances_orm t))"
  using sort_key_order_independent [of t t']
  by (simp add: get_account_balances_def get_account_balances_orm_def comp_def unique_keys_def)

theorem balances_sorted_witness:
  "unique_keys [\<lparr>account_id = 1, account_number = ''ACC002'', balance = IntegerValue 20\<rparr>,
                \<lparr>account_id = 2, account_number = ''ACC001'', balance = IntegerValue 10\<rparr>] \<and>
   mset [\<lparr>account_id = 2, account_number = ''ACC001'', balance = IntegerValue 10\<rparr>,
         \<lparr>account_id = 1, account_number = ''ACC002'', balance = IntegerValue 20\<rparr>] =
   mset [\<lparr>account_id = 1, account_number = ''ACC002'', balance = IntegerValue 20\<rparr>,
         \<lparr>account_id = 2, account_number = ''ACC001'', balance = IntegerValue 10\<rparr>] \<and>
   fst (get_account_balances
         [\<lparr>account_id = 2, account_number = ''ACC001'', balance = IntegerValue 10\<rparr>,
          \<lparr>account_id = 1, account_number = ''ACC002'', balance = IntegerValue 20\<rparr>]) =
   fst (get_account_balances
         [\<lparr>account_id = 1, account_number = ''ACC002'', balance = IntegerValue 20\<rparr>,
          \<lparr>account_id = 2, account_number = ''ACC001'', balance = IntegerValue 10\<rparr>]) \<and>
   fst (get_account_balances
         [\<lparr>account_id = 1, account_number = ''ACC002'', balance = IntegerValue 20\<rparr>,
          \<lparr>account_id = 2, account_number = ''ACC001'', balance = IntegerValue 10\<rparr>]) =
     [(''ACC001'', IntegerValue 10), (''ACC002'', IntegerValue 20)]"
  using balances_sorted
    [of "[\<lparr>account_id = 1, account_number = ''ACC002'', balance = IntegerValue 20\<rparr>,
          \<lparr>account_id = 2, account_number = ''ACC001'', balance = IntegerValue 10\<rparr>]"
        "[\<lparr>account_id = 2, account_number = ''ACC001'', balance = IntegerValue 10\<rparr>,
          \<lparr>account_id = 1, account_number = ''ACC002'', balance = IntegerValue 20\<rparr>]"]
  by (simp add: unique_keys_def get_account_balances_def in_int64_def)

subsection \<open>C9: a transfer from an account to itself\<close>

text \<open>
  Claim C9 as the specification states it (a transfer from an existing account to itself
  is allowed) fails for \<^verbatim>\<open>transfer_funds_orm\<close>, which rejects it when the amount exceeds
  the balance.
\<close>

theorem same_account_counterexample:
  "lookup orm_seed ''ACC003'' =
     Some \<lparr>account_id = 3, account_number = ''ACC003'', balance = IntegerValue 200\<rparr> \<and>
   transfer_funds_orm orm_seed ''ACC003'' ''ACC003'' 500 False =
     (RolledBack (InsufficientFunds ''ACC003''),
      [(''ACC001'', IntegerValue 1000), (''ACC002'', IntegerValue 500),
       (''ACC003'', IntegerValue 200)], orm_seed)"
  by (simp add: orm_seed_def lookup_def transfer_funds_orm_def transfer_session_def
        query_first_def new_session_def get_account_balances_orm_def)

text \<open>
  Claim C9, amended. Without the fault flag, a transfer from an existing account with an
  integer balance to itself commits in \<^verbatim>\<open>transfer_funds\<close> and leaves the table as it
  was, when the amount and the balance less the amount are 64-bit integers; in
  \<^verbatim>\<open>transfer_funds_orm\<close> it commits when the balance covers the amount and is rolled
  back for insufficient funds otherwise, and the table is as it was in both cases.
\<close>

theorem same_account_transfer:
  assumes wf: "wf_table t"
    and a: "lookup t account = Some a"
    and ba: "balance a = IntegerValue x"
  shows "(in_int64 amount \<and> in_int64 (x - amount) \<longrightarrow>
            transfer_funds t account account amount False =
              (Committed, fst (get_account_balances t), t)) \<and>
         transfer_funds_orm t account account amount False =
           (if x < amount then RolledBack (InsufficientFunds account) else Committed,
            fst (get_account_balances_orm t), t)"
proof -
  have core: "transfer_statements account account amount False t = Inr t"
    if "in_int64 amount" "in_int64 (x - amount)"
    using a that by (simp add: transfer_statements_plain update_balance_self [OF wf a ba])
  have orm: "transfer_session account account amount False t =
      (if x < amount then Inl (InsufficientFunds account) else Inr t)"
  proof (cases "x < amount")
    case True
    then show ?thesis
      using a ba by (simp add: transfer_session_insufficient)
  next
    case False
    then show ?thesis
      by (simp add: transfer_session_one [OF a ba False] session_commit_def
            flush_one [OF wf a])
  qed
  show ?thesis
    unfolding transfer_funds_def transfer_funds_orm_def orm
    by (simp add: core get_account_balances_def get_account_balances_orm_def)
qed

theorem same_account_transfer_witness:
  "wf_table orm_seed \<and>
   lookup orm_seed ''ACC001'' =
     Some \<lparr>account_id = 1, account_number = ''ACC001'', balance = IntegerValue 1000\<rparr> \<and>
   in_int64 300 \<and> in_int64 (1000 - 300) \<and>
   transfer_funds orm_seed ''ACC001'' ''ACC001'' 300 False =
     (Committed,
      [(''ACC001'', IntegerValue 1000), (''ACC002'', IntegerValue 500),
       (''ACC003'', IntegerValue 200)], orm_seed) \<and>
   transfer_funds_orm orm_seed ''ACC001'' ''ACC001'' 300 False =
     (Committed,
      [(''ACC001'', IntegerValue 1000), (''ACC002'', IntegerValue 500),
       (''ACC003'', IntegerValue 200)], orm_seed)"
proof -
  have a: "lookup orm_seed ''ACC001'' =
      Some \<lparr>account_id = 1, account_number = ''ACC001'', balance = IntegerValue 1000\<rparr>"
    by (rule lookup_orm_seed)
  have ba: "balance \<lparr>account_id = 1, account_number = ''ACC001'', balance = IntegerValue 1000\<rparr> =
      IntegerValue 1000"
    by simp
  have r: "in_int64 300" "in_int64 (1000 - 300)"
    by (simp_all add: in_int64_def)
  show ?thesis
    using same_account_transfer [OF wf_orm_seed a ba, of 300] a wf_orm_seed r
    by (simp add: printed_orm_seed)
qed

subsection \<open>C10: the Core transfer checks no funds\<close>

text \<open>
  Claim C10 as stated (without the fault flag, every amount above the
  source's balance is still transferred between two distinct existing accounts) fails
  for an amount that is no 64-bit integer: it cannot be bound to the statement, and the
  transfer is rolled back.
\<close>

theorem core_no_funds_check_counterexample:
  "''ACC001'' \<noteq> ''ACC002'' \<and>
   lookup core_seed ''ACC001'' =
     Some \<lparr>account_id = 1, account_number = ''ACC001'', balance = IntegerValue 1000\<rparr> \<and>
   lookup core_seed ''ACC002'' =
     Some \<lparr>account_id = 2, account_number = ''ACC002'', balance = IntegerValue 2000\<rparr> \<and>
   (1000 :: int) < 9223372036854775808 \<and>
   transfer_funds core_seed ''ACC001'' ''ACC002'' 9223372036854775808 False =
     (RolledBack OverflowError,
      [(''ACC001'', IntegerValue 1000), (''ACC002'', IntegerValue 2000),
       (''ACC003'', IntegerValue 3000)],
      core_seed)"
  by (simp add: lookup_def transfer_funds_def transfer_statements_def execute_update_def
        in_int64_def get_account_balances_def core_seed_def)

text \<open>
  Claim C10, amended. \<^verbatim>\<open>transfer_funds\<close> has no sufficiency check: without the fault
  flag, between two distinct existing accounts, an amount strictly above the source's
  integer balance is still transferred when the amount and the new balance are 64-bit
  integers: the transfer commits and the source's balance is negative.
\<close>

theorem core_no_funds_check:
  assumes "from_acc_number \<noteq> to_acc_number"
    and "lookup t from_acc_number = Some a"
    and "lookup t to_acc_number = Some b"
    and "balance a = IntegerValue x"
    and "x < amount"
    and "in_int64 amount"
    and "in_int64 (x - amount)"
  shows "fst (transfer_funds t from_acc_number to_acc_number amount False) = Committed \<and>
         balance_of (snd (snd (transfer_funds t from_acc_number to_acc_number amount False)))
           from_acc_number = Some (IntegerValue (x - amount)) \<and>
         x - amount < 0"
  using assms
  by (simp add: transfer_funds_def transfer_statements_plain get_account_balances_def
        balance_of_def lookup_update_balance)

theorem core_no_funds_check_witness:
  "''ACC001'' \<noteq> ''ACC002'' \<and>
   lookup core_seed ''ACC001'' =
     Some \<lparr>account_id = 1, account_number = ''ACC001'', balance = IntegerValue 1000\<rparr> \<and>
   lookup core_seed ''ACC002'' =
     Some \<lparr>account_id = 2, account_number = ''ACC002'', balance = IntegerValue 2000\<rparr> \<and>
   (1000 :: int) < 5000 \<and> in_int64 5000 \<and> in_int64 (1000 - 5000) \<and>
   fst (transfer_funds core_seed ''ACC001'' ''ACC002'' 5000 False) = Committed \<and>
   balance_of (snd (snd (transfer_funds core_seed ''ACC001'' ''ACC002'' 5000 False))) ''ACC001'' =
     Some (IntegerValue (- 4000))"
proof -
  have h1: "''ACC001'' \<noteq> ''ACC002''"
    by simp
  have h2: "lookup core_seed ''ACC001'' =
      Some \<lparr>account_id = 1, account_number = ''ACC001'', balance = IntegerValue 1000\<rparr>"
    by (rule lookup_core_seed)
  have h3: "lookup core_seed ''ACC002'' =
      Some \<lparr>account_id = 2, account_number = ''ACC002'', balance = IntegerValue 2000\<rparr>"
    by (rule lookup_core_seed)
  have h4: "balance \<lparr>account_id = 1, account_number = ''ACC001'', balance = IntegerValue 1000\<rparr> =
      IntegerValue 1000"
    by simp
  have h5: "(1000 :: int) < 5000"
    by simp
  have h6: "in_int64 5000" and h7: "in_int64 (1000 - 5000)"
    by (simp_all add: in_int64_def)
  show ?thesis
    using h1 h2 h3 h5 h6 h7 core_no_funds_check [OF h1 h2 h3 h4 h5 h6 h7] by simp
qed

end
